theory Spec2Isabelle
  imports Complex_Main "HOL-Library.Multiset" "HOL-Library.FSet" "HOL-Library.Sublist"
    "HOL-Library.AList" "HOL-Library.Log_Nat"
begin

section \<open>ProtoMatcher: structural signatures of protobuf descriptors\<close>

text \<open>
  A shallow embedding of \<^verbatim>\<open>proto_matcher.py\<close>: the signature generator
  (\<^verbatim>\<open>generate_signatures\<close> with its inner \<^verbatim>\<open>get_enum_sig\<close> and
  \<^verbatim>\<open>get_signature\<close>), the scorer \<^verbatim>\<open>compare_sigs\<close>, the match selector
  \<^verbatim>\<open>get_matches\<close> and the session \<^verbatim>\<open>start_sequential_matching\<close>.

  Conventions of the embedding.
  \<^item> Every Python exception the modelled code can raise is a value of \<open>error\<close>; a function
    that can raise returns \<open>error + 'a\<close> with \<open>Inl\<close> for the exception. No exception is caught
    anywhere in the source, so an \<open>Inl\<close> aborts the whole call chain.
  \<^item> Python dictionaries keep insertion order and the source iterates over them, so they are
    association lists; \<open>d[k] = v\<close> is \<open>AList.update k v d\<close> (replace in place, or append).
  \<^item> \<^verbatim>\<open>FrozenMultiset\<close> is \<open>'a multiset\<close>, \<^verbatim>\<open>frozenset\<close> is \<open>'a fset\<close>.
  \<^item> A Python \<^verbatim>\<open>float\<close> is the rational number it denotes (\<open>rat\<close>), and every arithmetic
    operation that yields a float rounds its exact result to the nearest IEEE 754 double
    (\<open>float_round\<close>).
  \<^item> Printing and tree rendering are left out; what a function prints as its result is
    what the model returns.
\<close>

subsection \<open>Exceptions\<close>

datatype error =
    KeyError
  | TypeError
  | IndexError
  | ValueError
  | ZeroDivisionError
  | RecursionError
  | EOFError

subsection \<open>Descriptors (the input, \<^verbatim>\<open>google.protobuf.descriptor_pb2\<close>)\<close>

datatype label = LABEL_OPTIONAL | LABEL_REQUIRED | LABEL_REPEATED

datatype ftype =
    TYPE_DOUBLE | TYPE_FLOAT | TYPE_INT64 | TYPE_UINT64 | TYPE_INT32 | TYPE_FIXED64
  | TYPE_FIXED32 | TYPE_BOOL | TYPE_STRING | TYPE_GROUP | TYPE_MESSAGE | TYPE_BYTES
  | TYPE_UINT32 | TYPE_ENUM | TYPE_SFIXED32 | TYPE_SFIXED64 | TYPE_SINT32 | TYPE_SINT64

text \<open>\<^verbatim>\<open>FieldDescriptorProto\<close>: \<open>None\<close> in an optional member is \<^verbatim>\<open>HasField\<close> being false.\<close>

record field_descriptor =
  f_label :: label
  f_type :: ftype
  f_type_name :: "string option"
  f_oneof_index :: "int option"

text \<open>\<^verbatim>\<open>EnumDescriptorProto\<close>: \<open>e_value\<close> lists the \<^verbatim>\<open>number\<close> of each declared value.\<close>

record enum_descriptor =
  e_name :: string
  e_value :: "int list"
  e_allow_alias :: bool

text \<open>\<^verbatim>\<open>DescriptorProto\<close>: \<open>m_oneof_decl\<close> lists the names of the declared oneofs,
  \<open>m_map_entry\<close> is \<^verbatim>\<open>options.map_entry\<close>.\<close>

datatype descriptor_proto = DescriptorProto
  (m_name: string)
  (m_field: "field_descriptor list")
  (m_nested_type: "descriptor_proto list")
  (m_enum_type: "enum_descriptor list")
  (m_oneof_decl: "string list")
  (m_map_entry: bool)

datatype proto = Message descriptor_proto | Enum enum_descriptor

record file_descriptor =
  file_message_type :: "descriptor_proto list"
  file_enum_type :: "enum_descriptor list"

text \<open>The entries of \<^verbatim>\<open>config["ProtoMatcher"]\<close> the modelled functions read.\<close>

record options =
  PACKAGE_NAME :: string
  DEFAULT_EMPTY_TO_BYTES :: bool
  THRESHOLD :: rat
  MAX_DISPLAY_MATCHES :: int

subsection \<open>Signatures\<close>

text \<open>
  \<^verbatim>\<open>Signature = SignType | FieldTuple | MapEntry\<close>. A message is the \<^verbatim>\<open>FrozenMultiset\<close> of
  its field infos, an enum the \<^verbatim>\<open>frozenset\<close> of its numbers, a map-entry message the
  named tuple \<^verbatim>\<open>MapEntry(key, value)\<close> of its two field infos, and \<^verbatim>\<open>None\<close> (here
  \<open>Absent\<close>) is what \<^verbatim>\<open>get_enum_sig\<close> returns for an enum with \<^verbatim>\<open>allow_alias\<close>.
  A field info is a \<^verbatim>\<open>str\<close> (\<open>Scalar\<close>) or a \<^verbatim>\<open>FieldTuple(label_type, signature)\<close>.
\<close>

datatype signature =
    is_FieldSet: FieldSet "field_info multiset"
  | is_EnumValues: EnumValues "int fset"
  | is_MapEntry: MapEntry field_info field_info
  | is_Absent: Absent
and field_info =
    Scalar string
  | FieldTuple string signature

text \<open>Python truthiness: \<^verbatim>\<open>not sig\<close> holds for \<^verbatim>\<open>None\<close> and for an empty container; a
  named tuple of two members is never empty.\<close>

fun not_sig :: "signature \<Rightarrow> bool" where
  "not_sig Absent = True"
| "not_sig (FieldSet m) = (m = {#})"
| "not_sig (EnumValues s) = (s = {||})"
| "not_sig (MapEntry k v) = False"

text \<open>\<^verbatim>\<open>len(sig)\<close>: the shallow cardinality; \<^verbatim>\<open>len(None)\<close> raises \<^verbatim>\<open>TypeError\<close>.\<close>

fun sig_len :: "signature \<Rightarrow> error + nat" where
  "sig_len (FieldSet m) = Inr (size m)"
| "sig_len (EnumValues s) = Inr (fcard s)"
| "sig_len (MapEntry k v) = Inr 2"
| "sig_len Absent = Inl TypeError"

text \<open>
  \<^verbatim>\<open>len(sig1 & sig2)\<close>. \<^verbatim>\<open>&\<close> is the multiset intersection of two multisets and the set
  intersection of two frozensets. Between a multiset and a frozenset the
  \<^verbatim>\<open>multiset\<close> package's \<^verbatim>\<open>__and__\<close>/\<^verbatim>\<open>__rand__\<close> intersect as well; the members of one
  are strings and tuples and those of the other integers, so nothing is shared. A tuple has
  no \<^verbatim>\<open>&\<close>: \<^verbatim>\<open>TypeError\<close>.
\<close>

fun sig_inter_len :: "signature \<Rightarrow> signature \<Rightarrow> error + nat" where
  "sig_inter_len (FieldSet a) (FieldSet b) = Inr (size (a \<inter># b))"
| "sig_inter_len (EnumValues a) (EnumValues b) = Inr (fcard (a |\<inter>| b))"
| "sig_inter_len (FieldSet a) (EnumValues b) = Inr 0"
| "sig_inter_len (EnumValues a) (FieldSet b) = Inr 0"
| "sig_inter_len sig1 sig2 = Inl TypeError"

subsection \<open>Floating point\<close>

text \<open>
  CPython's \<^verbatim>\<open>int / int\<close>, \<^verbatim>\<open>float * float\<close>, \<^verbatim>\<open>float + float\<close> and
  \<^verbatim>\<open>int - float\<close> return the exact result rounded to the nearest binary64 number,
  ties to the even significand. \<open>float_round\<close> is that rounding on the rationals: with
  \<open>2 ^ e \<le> |x| < 2 ^ (e + 1)\<close> the result is the multiple of \<open>2 ^ (max e (-1022) - 52)\<close>
  nearest to \<open>x\<close> (53 significant bits, subnormal below \<open>2 ^ -1022\<close>). Overflow to
  infinity is not modelled: no value computed here exceeds 2.
\<close>

definition round_half_even :: "rat \<Rightarrow> int" where
  "round_half_even y =
     (let f = \<lfloor>y\<rfloor>; r = y - of_int f
      in if r < 1 / 2 then f else if 1 / 2 < r then f + 1 else if even f then f else f + 1)"

definition pow2 :: "int \<Rightarrow> rat" where
  "pow2 k = (if 0 \<le> k then 2 ^ nat k else 1 / 2 ^ nat (- k))"

text \<open>The binary exponent \<open>\<lfloor>log\<^sub>2 x\<rfloor>\<close> of a positive rational, from the bit lengths of
  its numerator and denominator.\<close>

definition exponent_of :: "rat \<Rightarrow> int" where
  "exponent_of x =
     (let d = bitlen (fst (quotient_of x)) - bitlen (snd (quotient_of x))
      in if pow2 d \<le> x then d else d - 1)"

definition float_round :: "rat \<Rightarrow> rat" where
  "float_round x =
     (if x = 0 then 0
      else let t = max (exponent_of \<bar>x\<bar>) (- 1022) - 52
        in of_int (round_half_even (x / pow2 t)) * pow2 t)"

subsection \<open>The scorer\<close>

text \<open>
  \<^verbatim>\<open>
  def compare_sigs(sig1, sig2):
      sig1_len = len(sig1)
      sig2_len = len(sig2)
      intersection = len(sig1 & sig2)
      len_ratio = min(sig1_len, sig2_len) / max(sig1_len, sig2_len)
      return (intersection / sig1_len) * len_ratio
  \<close>
  Each \<^verbatim>\<open>/\<close> raises \<^verbatim>\<open>ZeroDivisionError\<close> on a zero divisor; both quotients and the
  product are floats.
\<close>

definition compare_sigs :: "signature \<Rightarrow> signature \<Rightarrow> error + rat" where
  "compare_sigs sig1 sig2 =
     (case sig_len sig1 of Inl e \<Rightarrow> Inl e | Inr sig1_len \<Rightarrow>
     (case sig_len sig2 of Inl e \<Rightarrow> Inl e | Inr sig2_len \<Rightarrow>
     (case sig_inter_len sig1 sig2 of Inl e \<Rightarrow> Inl e | Inr intersection \<Rightarrow>
        (if max sig1_len sig2_len = 0 then Inl ZeroDivisionError
         else let len_ratio = float_round
                (rat_of_nat (min sig1_len sig2_len) / rat_of_nat (max sig1_len sig2_len))
           in if sig1_len = 0 then Inl ZeroDivisionError
              else Inr (float_round
                (float_round (rat_of_nat intersection / rat_of_nat sig1_len) * len_ratio))))))"

subsection \<open>The match selector\<close>

text \<open>\<^verbatim>\<open>list.index(x)\<close>: the first position of \<open>x\<close>, \<^verbatim>\<open>ValueError\<close> when it is absent.\<close>

fun index :: "'a list \<Rightarrow> 'a \<Rightarrow> error + nat" where
  "index [] x = Inl ValueError"
| "index (y # ys) x =
     (if y = x then Inr 0
      else case index ys x of Inl e \<Rightarrow> Inl e | Inr i \<Rightarrow> Inr (Suc i))"

text \<open>
  The scoring loop of \<^verbatim>\<open>get_matches\<close> over \<^verbatim>\<open>proto2sig_map.items()\<close>:
  \<^verbatim>\<open>
      for name, sig in proto2sig_map.items():
          if "." in name: continue # Skip nested types
          score = compare_sigs(match_sig, sig)
          if score < threshold: continue
          score_map[name] = score
  \<close>
\<close>

fun score_loop ::
  "rat \<Rightarrow> signature \<Rightarrow> (string \<times> signature) list \<Rightarrow> (string \<times> rat) list
     \<Rightarrow> error + (string \<times> rat) list" where
  "score_loop threshold match_sig [] score_map = Inr score_map"
| "score_loop threshold match_sig ((name, sig) # rest) score_map =
     (if CHR ''.'' \<in> set name then score_loop threshold match_sig rest score_map
      else case compare_sigs match_sig sig of
          Inl e \<Rightarrow> Inl e
        | Inr score \<Rightarrow>
            (if score < threshold then score_loop threshold match_sig rest score_map
             else score_loop threshold match_sig rest (AList.update name score score_map)))"

text \<open>
  \<^verbatim>\<open>
      def sort_key(tup):
          idx_weight = 1 -((proto_list.index(tup[0]) + 1) / len(proto_list))
          return tup[1] + idx_weight * 0.5
  \<close>
  \<^verbatim>\<open>index\<close> raises before the division is reached when the list is empty.
\<close>

definition sort_key_fn :: "string list \<Rightarrow> string \<times> rat \<Rightarrow> error + rat" where
  "sort_key_fn proto_list tup =
     (case index proto_list (fst tup) of
        Inl e \<Rightarrow> Inl e
      | Inr i \<Rightarrow>
          let idx_weight = float_round
                (1 - float_round (rat_of_nat (i + 1) / rat_of_nat (length proto_list)))
          in Inr (float_round (snd tup + float_round (idx_weight * (1 / 2)))))"

text \<open>\<^verbatim>\<open>sorted\<close> first computes the key of every item, in order; a raising key aborts.\<close>

fun with_keys :: "('a \<Rightarrow> error + rat) \<Rightarrow> 'a list \<Rightarrow> error + (rat \<times> 'a) list" where
  "with_keys key [] = Inr []"
| "with_keys key (x # xs) =
     (case key x of
        Inl e \<Rightarrow> Inl e
      | Inr k \<Rightarrow> (case with_keys key xs of Inl e \<Rightarrow> Inl e | Inr ks \<Rightarrow> Inr ((k, x) # ks)))"

text \<open>\<^verbatim>\<open>sorted(items, key=key, reverse=True)\<close>: descending by key, and stable (items of
  equal key keep their order), which is an ascending stable sort by the negated key.\<close>

definition sorted_reverse :: "('a \<Rightarrow> error + rat) \<Rightarrow> 'a list \<Rightarrow> error + 'a list" where
  "sorted_reverse key items =
     (case with_keys key items of
        Inl e \<Rightarrow> Inl e
      | Inr ks \<Rightarrow> Inr (map snd (sort_key (\<lambda>p. - fst p) ks)))"

text \<open>The slice \<^verbatim>\<open>xs[:k]\<close>: a negative \<open>k\<close> counts from the end.\<close>

definition slice_to :: "'a list \<Rightarrow> int \<Rightarrow> 'a list" where
  "slice_to xs k = (if 0 \<le> k then take (nat k) xs else take (nat (int (length xs) + k)) xs)"

text \<open>
  \<^verbatim>\<open>
  def get_matches(proto_name, match_sig, proto2sig_map, proto_list):
      threshold = options.getfloat("THRESHOLD", 0.5)
      score_map = {}
      for name, sig in proto2sig_map.items(): ...
      if not score_map:
          return print("No matches found. :cry:")
      matches_sorted = sorted(score_map.items(), key=sort_key, reverse=True)
      matches_view = matches_sorted[:options.getint("MAX_DISPLAY_MATCHES")]
      ... print matches_view ...
  \<close>
  The model returns the entries the function prints (none when nothing matched).
\<close>

definition get_matches ::
  "options \<Rightarrow> signature \<Rightarrow> (string \<times> signature) list \<Rightarrow> string list
     \<Rightarrow> error + (string \<times> rat) list" where
  "get_matches opts match_sig proto2sig_map proto_list =
     (case score_loop (THRESHOLD opts) match_sig proto2sig_map [] of
        Inl e \<Rightarrow> Inl e
      | Inr score_map \<Rightarrow>
          (if score_map = [] then Inr []
           else (case sorted_reverse (sort_key_fn proto_list) score_map of
              Inl e \<Rightarrow> Inl e
            | Inr matches_sorted \<Rightarrow>
                Inr (slice_to matches_sorted (MAX_DISPLAY_MATCHES opts)))))"

subsection \<open>The signature generator\<close>

text \<open>\<^verbatim>\<open>str.removeprefix\<close> and \<^verbatim>\<open>str.removesuffix\<close>.\<close>

definition removeprefix :: "string \<Rightarrow> string \<Rightarrow> string" where
  "removeprefix p s = (if prefix p s then drop (length p) s else s)"

definition removesuffix :: "string \<Rightarrow> string \<Rightarrow> string" where
  "removesuffix p s = (if suffix p s then take (length s - length p) s else s)"

text \<open>
  \<^verbatim>\<open>
  def strip_proto_name(name):
      return name.removeprefix(".").removeprefix(options["PACKAGE_NAME"]).removesuffix(".proto")
  \<close>
\<close>

definition strip_proto_name :: "options \<Rightarrow> string \<Rightarrow> string" where
  "strip_proto_name opts name =
     removesuffix ''.proto'' (removeprefix (PACKAGE_NAME opts) (removeprefix ''.'' name))"

text \<open>
  The registry under construction, \<^verbatim>\<open>proto2sig_map\<close>, which \<^verbatim>\<open>get_signature\<close> reads and
  its callers write. \<open>computed\<close> is a trace the source does not keep: the name of every
  request that missed the memo lookup and ran the body of \<^verbatim>\<open>get_signature\<close>, in order.
  Nothing reads it; it is there to count computations.
\<close>

record registry =
  proto2sig_map :: "(string \<times> signature) list"
  computed :: "string list"


text \<open>
  \<^verbatim>\<open>
      def get_enum_sig(enum):
          if enum.options.allow_alias: return # Ignore CmdId enums
          return frozenset([e.number for e in enum.value])
  \<close>
\<close>

definition get_enum_sig :: "enum_descriptor \<Rightarrow> signature" where
  "get_enum_sig enum =
     (if e_allow_alias enum then Absent else EnumValues (fset_of_list (e_value enum)))"

text \<open>\<^verbatim>\<open>Label.Name(field.label).removeprefix("LABEL_").lower() + " "\<close>, or the empty string
  for \<^verbatim>\<open>LABEL_OPTIONAL\<close>.\<close>

fun field_label :: "label \<Rightarrow> string" where
  "field_label LABEL_OPTIONAL = []"
| "field_label LABEL_REQUIRED = ''required ''"
| "field_label LABEL_REPEATED = ''repeated ''"

text \<open>\<^verbatim>\<open>Type.Name(field.type).removeprefix("TYPE_").lower()\<close>.\<close>

fun field_type :: "ftype \<Rightarrow> string" where
  "field_type TYPE_DOUBLE = ''double''"
| "field_type TYPE_FLOAT = ''float''"
| "field_type TYPE_INT64 = ''int64''"
| "field_type TYPE_UINT64 = ''uint64''"
| "field_type TYPE_INT32 = ''int32''"
| "field_type TYPE_FIXED64 = ''fixed64''"
| "field_type TYPE_FIXED32 = ''fixed32''"
| "field_type TYPE_BOOL = ''bool''"
| "field_type TYPE_STRING = ''string''"
| "field_type TYPE_GROUP = ''group''"
| "field_type TYPE_MESSAGE = ''message''"
| "field_type TYPE_BYTES = ''bytes''"
| "field_type TYPE_UINT32 = ''uint32''"
| "field_type TYPE_ENUM = ''enum''"
| "field_type TYPE_SFIXED32 = ''sfixed32''"
| "field_type TYPE_SFIXED64 = ''sfixed64''"
| "field_type TYPE_SINT32 = ''sint32''"
| "field_type TYPE_SINT64 = ''sint64''"

text \<open>
  The loops of \<^verbatim>\<open>get_signature\<close> call \<^verbatim>\<open>get_signature\<close> again; they are written over the
  function \<open>get\<close> that stands for that call (one stack frame deeper).
\<close>

type_synonym getter = "string \<Rightarrow> proto option \<Rightarrow> registry \<Rightarrow> error + signature \<times> registry"

text \<open>
  \<^verbatim>\<open>
              for nested_type in proto.nested_type:
                  nested_name = f"{name}.{nested_type.name}"
                  proto2sig_map[nested_name] = get_signature(nested_name, nested_type)
  \<close>
\<close>

fun nested_loop :: "getter \<Rightarrow> string \<Rightarrow> descriptor_proto list \<Rightarrow> registry \<Rightarrow> error + registry" where
  "nested_loop get name [] st = Inr st"
| "nested_loop get name (nested_type # rest) st =
     (let nested_name = name @ ''.'' @ m_name nested_type in
      case get nested_name (Some (Message nested_type)) st of
        Inl e \<Rightarrow> Inl e
      | Inr (sig, st1) \<Rightarrow>
          nested_loop get name rest
            (st1\<lparr>proto2sig_map := AList.update nested_name sig (proto2sig_map st1)\<rparr>))"

text \<open>
  \<^verbatim>\<open>
              for enum_type in proto.enum_type:
                  if enum_sig := get_enum_sig(enum_type):
                      nested_name = f"{name}.{enum_type.name}"
                      proto2sig_map[nested_name] = enum_sig
  \<close>
\<close>

fun enum_loop :: "string \<Rightarrow> enum_descriptor list \<Rightarrow> registry \<Rightarrow> registry" where
  "enum_loop name [] st = st"
| "enum_loop name (enum_type # rest) st =
     (let enum_sig = get_enum_sig enum_type in
      if not_sig enum_sig then enum_loop name rest st
      else enum_loop name rest
        (st\<lparr>proto2sig_map :=
           AList.update (name @ ''.'' @ e_name enum_type) enum_sig (proto2sig_map st)\<rparr>))"

text \<open>
  The body of the loop over \<^verbatim>\<open>proto.field\<close>, up to \<^verbatim>\<open>field_info\<close>:
  \<^verbatim>\<open>
                  field_label = ...; field_type = ...; field_type_sig = None
                  if field.HasField("type_name"):
                      type_sig = get_signature(strip_proto_name(field.type_name))
                      if options.getboolean("DEFAULT_EMPTY_TO_BYTES", True) and not type_sig:
                          field_type = "bytes"
                      else:
                          field_type_sig = get_signature(strip_proto_name(field.type_name))
                          if type(field_type_sig) == MapEntry:
                              field_type = "map"
                  field_info = f"{field_label}{field_type}"
                  if field_type_sig:
                      field_info = FieldTuple(field_info, field_type_sig)
  \<close>
\<close>

definition field_info_of ::
  "options \<Rightarrow> getter \<Rightarrow> field_descriptor \<Rightarrow> registry \<Rightarrow> error + field_info \<times> registry" where
  "field_info_of opts get field st =
     (case f_type_name field of
        None \<Rightarrow> Inr (Scalar (field_label (f_label field) @ field_type (f_type field)), st)
      | Some type_name \<Rightarrow>
          (case get (strip_proto_name opts type_name) None st of
             Inl e \<Rightarrow> Inl e
           | Inr (type_sig, st1) \<Rightarrow>
               (if DEFAULT_EMPTY_TO_BYTES opts \<and> not_sig type_sig
                then Inr (Scalar (field_label (f_label field) @ ''bytes''), st1)
                else (case get (strip_proto_name opts type_name) None st1 of
                    Inl e \<Rightarrow> Inl e
                  | Inr (field_type_sig, st2) \<Rightarrow>
                      (let field_info = field_label (f_label field) @
                             (if is_MapEntry field_type_sig then ''map''
                              else field_type (f_type field))
                       in Inr (if not_sig field_type_sig then Scalar field_info
                               else FieldTuple field_info field_type_sig, st2))))))"

text \<open>\<^verbatim>\<open>oneofs[field.oneof_index].append(field_info)\<close>: a negative index counts from the
  end, one out of range raises \<^verbatim>\<open>IndexError\<close>.\<close>

definition oneofs_append ::
  "field_info list list \<Rightarrow> int \<Rightarrow> field_info \<Rightarrow> error + field_info list list" where
  "oneofs_append oneofs i field_info =
     (let n = int (length oneofs); j = (if i < 0 then n + i else i)
      in if 0 \<le> j \<and> j < n then Inr (oneofs[nat j := oneofs ! nat j @ [field_info]])
         else Inl IndexError)"



text \<open>
  \<^verbatim>\<open>
              for field in proto.field:
                  ... field_info ...
                  if field.HasField("oneof_index"):
                      oneofs[field.oneof_index].append(field_info)
                  else:
                      field_list.append(field_info)
  \<close>
\<close>

fun fields_loop ::
  "options \<Rightarrow> getter \<Rightarrow> field_descriptor list \<Rightarrow> field_info list \<Rightarrow> field_info list list
     \<Rightarrow> registry \<Rightarrow> error + field_info list \<times> field_info list list \<times> registry" where
  "fields_loop opts get [] field_list oneofs st = Inr (field_list, oneofs, st)"
| "fields_loop opts get (field # rest) field_list oneofs st =
     (case field_info_of opts get field st of
        Inl e \<Rightarrow> Inl e
      | Inr (field_info, st1) \<Rightarrow>
          (case f_oneof_index field of
             Some i \<Rightarrow>
               (case oneofs_append oneofs i field_info of
                  Inl e \<Rightarrow> Inl e
                | Inr oneofs1 \<Rightarrow> fields_loop opts get rest field_list oneofs1 st1)
           | None \<Rightarrow> fields_loop opts get rest (field_list @ [field_info]) oneofs st1))"

text \<open>\<^verbatim>\<open>for olist in oneofs: field_list.append(FieldTuple("oneof", FrozenMultiset(olist)))\<close>\<close>

definition add_oneofs :: "field_info list \<Rightarrow> field_info list list \<Rightarrow> field_info list" where
  "add_oneofs field_list oneofs =
     field_list @ map (\<lambda>olist. FieldTuple ''oneof'' (FieldSet (mset olist))) oneofs"

text \<open>\<^verbatim>\<open>MapEntry(*field_list)\<close>: the named tuple takes exactly two arguments.\<close>

fun make_map_entry :: "field_info list \<Rightarrow> error + signature" where
  "make_map_entry [k, v] = Inr (MapEntry k v)"
| "make_map_entry field_list = Inl TypeError"

text \<open>
  \<^verbatim>\<open>
      def get_signature(name, proto=None):
          if name in proto2sig_map:
              return proto2sig_map[name]
          if not proto:
              proto = descriptor_map[name]
          if type(proto) == DescriptorProto:
              field_list = []
              oneofs = [[] for _ in range(len(proto.oneof_decl))]
              ... the three loops ...
              for olist in oneofs:
                  field_list.append(FieldTuple("oneof", FrozenMultiset(olist)))
              if proto.options.map_entry:
                  return MapEntry(*field_list)
              return FrozenMultiset(field_list)
          elif type(proto) == EnumDescriptorProto:
              return get_enum_sig(proto)
  \<close>
  The first argument is the number of stack frames left: Python raises \<^verbatim>\<open>RecursionError\<close>
  on the call that exceeds its recursion limit, and every nested call has one frame less.
\<close>

primrec get_signature ::
  "nat \<Rightarrow> options \<Rightarrow> (string \<times> proto) list \<Rightarrow> getter" where
  "get_signature 0 opts descriptor_map = (\<lambda>name proto st. Inl RecursionError)"
| "get_signature (Suc depth) opts descriptor_map = (\<lambda>name proto st.
     (case map_of (proto2sig_map st) name of
        Some sig \<Rightarrow> Inr (sig, st)
      | None \<Rightarrow>
          (case (case proto of
                   Some p \<Rightarrow> Inr p
                 | None \<Rightarrow>
                     (case map_of descriptor_map name of
                        None \<Rightarrow> Inl KeyError
                      | Some p \<Rightarrow> Inr p)) of
             Inl e \<Rightarrow> Inl e
           | Inr (Enum enum) \<Rightarrow> Inr (get_enum_sig enum, st\<lparr>computed := computed st @ [name]\<rparr>)
           | Inr (Message m) \<Rightarrow>
               (case nested_loop (get_signature depth opts descriptor_map) name
                       (m_nested_type m) (st\<lparr>computed := computed st @ [name]\<rparr>) of
                  Inl e \<Rightarrow> Inl e
                | Inr st1 \<Rightarrow>
                    (case fields_loop opts (get_signature depth opts descriptor_map)
                            (m_field m) [] (replicate (length (m_oneof_decl m)) [])
                            (enum_loop name (m_enum_type m) st1) of
                       Inl e \<Rightarrow> Inl e
                     | Inr (field_list, oneofs, st3) \<Rightarrow>
                         (if m_map_entry m
                          then (case make_map_entry (add_oneofs field_list oneofs) of
                                  Inl e \<Rightarrow> Inl e
                                | Inr sig \<Rightarrow> Inr (sig, st3))
                          else Inr (FieldSet (mset (add_oneofs field_list oneofs)), st3)))))))"

text \<open>
  \<^verbatim>\<open>
      for desc in descriptor_set.file:
          for message in desc.message_type:
              descriptor_map[message.name] = message
          for enum in desc.enum_type:
              descriptor_map[enum.name] = enum
  \<close>
\<close>

definition build_descriptor_map :: "file_descriptor list \<Rightarrow> (string \<times> proto) list" where
  "build_descriptor_map files =
     fold (\<lambda>desc dm.
        fold (\<lambda>enum. AList.update (e_name enum) (Enum enum)) (file_enum_type desc)
          (fold (\<lambda>message. AList.update (m_name message) (Message message))
             (file_message_type desc) dm))
       files []"

text \<open>
  \<^verbatim>\<open>
      for name, proto in descriptor_map.items():
          sig = get_signature(name, proto)
          proto2sig_map[name] = sig
          sig2proto_map[sig].append(name)
  \<close>
  (\<^verbatim>\<open>sig2proto_map\<close> only feeds the uniqueness tables and is left out.)
\<close>

fun top_loop ::
  "nat \<Rightarrow> options \<Rightarrow> (string \<times> proto) list \<Rightarrow> (string \<times> proto) list \<Rightarrow> registry
     \<Rightarrow> error + registry" where
  "top_loop limit opts descriptor_map [] st = Inr st"
| "top_loop limit opts descriptor_map ((name, proto) # rest) st =
     (case get_signature limit opts descriptor_map name (Some proto) st of
        Inl e \<Rightarrow> Inl e
      | Inr (sig, st1) \<Rightarrow>
          top_loop limit opts descriptor_map rest
            (st1\<lparr>proto2sig_map := AList.update name sig (proto2sig_map st1)\<rparr>))"

text \<open>\<^verbatim>\<open>generate_signatures(descriptor_set)\<close>, with \<open>limit\<close> stack frames for each top-level
  request.\<close>

definition generate_signatures ::
  "nat \<Rightarrow> options \<Rightarrow> file_descriptor list \<Rightarrow> error + registry" where
  "generate_signatures limit opts files =
     top_loop limit opts (build_descriptor_map files) (build_descriptor_map files)
       \<lparr>proto2sig_map = [], computed = []\<rparr>"

subsection \<open>The sequential matching session\<close>

text \<open>
  The session reads the operator's answers with \<^verbatim>\<open>input\<close>; the model takes them as the list
  of lines still to be read and returns what is left. \<^verbatim>\<open>input\<close> at the end of the stream
  raises \<^verbatim>\<open>EOFError\<close>. \<open>seq_matches\<close> is the result dictionary.

  The inner loop, for one reference entry \<open>ref_proto\<close> with signature \<open>ref_sig\<close>:
  \<^verbatim>\<open>
          while(True):
              if obs_index + 1 >= len(obs_proto_list): break
              obs_proto = obs_proto_list[obs_index]
              if obs_proto not in obs_signatures:
                  obs_index += 1
                  continue
              obs_sig = obs_signatures[obs_proto]
              score = compare_sigs(ref_sig, obs_sig)
              if score == 1:
                  seq_matches[ref_proto] = obs_proto
                  break
              ... print both signature trees ...
              get_matches(ref_proto, ref_sig, obs_signatures, obs_proto_list)
              keep = input("Keep this as match? (empty to keep, 1 to skip current ref proto, 2 to skip current obs proto): ")
              if keep == "1": break
              elif keep == "2":
                  obs_index += 1
                  continue
              seq_matches[ref_proto] = obs_proto
              break
  \<close>
  It returns the obfuscated cursor, the result dictionary and the unread input.
\<close>

function match_loop ::
  "options \<Rightarrow> (string \<times> signature) list \<Rightarrow> string list \<Rightarrow> string \<Rightarrow> signature
     \<Rightarrow> nat \<Rightarrow> (string \<times> string) list \<Rightarrow> string list
     \<Rightarrow> error + nat \<times> (string \<times> string) list \<times> string list" where
  "match_loop opts obs_signatures obs_proto_list ref_proto ref_sig obs_index seq_matches inputs =
     (if obs_index + 1 \<ge> length obs_proto_list then Inr (obs_index, seq_matches, inputs)
      else (case map_of obs_signatures (obs_proto_list ! obs_index) of
          None \<Rightarrow>
            match_loop opts obs_signatures obs_proto_list ref_proto ref_sig (obs_index + 1)
              seq_matches inputs
        | Some obs_sig \<Rightarrow>
            (case compare_sigs ref_sig obs_sig of
               Inl e \<Rightarrow> Inl e
             | Inr score \<Rightarrow>
                 (if score = 1
                  then Inr (obs_index,
                         AList.update ref_proto (obs_proto_list ! obs_index) seq_matches, inputs)
                  else (case get_matches opts ref_sig obs_signatures obs_proto_list of
                      Inl e \<Rightarrow> Inl e
                    | Inr matches_view \<Rightarrow>
                        (case inputs of
                           [] \<Rightarrow> Inl EOFError
                         | keep # inputs' \<Rightarrow>
                             (if keep = ''1'' then Inr (obs_index, seq_matches, inputs')
                              else if keep = ''2''
                              then match_loop opts obs_signatures obs_proto_list ref_proto
                                     ref_sig (obs_index + 1) seq_matches inputs'
                              else Inr (obs_index,
                                     AList.update ref_proto (obs_proto_list ! obs_index)
                                       seq_matches,
                                     inputs'))))))))"
  by pat_completeness auto
termination
  by (relation "measure (\<lambda>(opts, obs_signatures, obs_proto_list, ref_proto, ref_sig, obs_index,
        seq_matches, inputs). length obs_proto_list - obs_index)") auto

declare match_loop.simps [simp del]

text \<open>
  The outer loop over the reference entries still to visit:
  \<^verbatim>\<open>
      for ref_proto in ref_proto_list:
          if obs_index + 1 >= len(obs_proto_list): break
          if ref_proto not in ref_signatures: continue
          if ref_proto in exact_matches:
              exact_match = exact_matches[ref_proto]
              seq_matches[ref_proto] = exact_match
              match_name = f"... [{obs_proto_list.index(exact_match)}]"
              continue
          ref_sig = ref_signatures[ref_proto]
          while(True): ...
  \<close>
\<close>

fun seq_loop ::
  "options \<Rightarrow> (string \<times> signature) list \<Rightarrow> (string \<times> signature) list \<Rightarrow> string list
     \<Rightarrow> (string \<times> string) list \<Rightarrow> string list \<Rightarrow> nat \<Rightarrow> (string \<times> string) list
     \<Rightarrow> string list \<Rightarrow> error + nat \<times> (string \<times> string) list \<times> string list" where
  "seq_loop opts ref_signatures obs_signatures obs_proto_list exact_matches []
     obs_index seq_matches inputs = Inr (obs_index, seq_matches, inputs)"
| "seq_loop opts ref_signatures obs_signatures obs_proto_list exact_matches (ref_proto # rest)
     obs_index seq_matches inputs =
     (if obs_index + 1 \<ge> length obs_proto_list then Inr (obs_index, seq_matches, inputs)
      else (case map_of ref_signatures ref_proto of
          None \<Rightarrow>
            seq_loop opts ref_signatures obs_signatures obs_proto_list exact_matches rest
              obs_index seq_matches inputs
        | Some ref_sig \<Rightarrow>
            (case map_of exact_matches ref_proto of
               Some exact_match \<Rightarrow>
                 (case index obs_proto_list exact_match of
                    Inl e \<Rightarrow> Inl e
                  | Inr place \<Rightarrow>
                      seq_loop opts ref_signatures obs_signatures obs_proto_list exact_matches
                        rest obs_index (AList.update ref_proto exact_match seq_matches) inputs)
             | None \<Rightarrow>
                 (case match_loop opts obs_signatures obs_proto_list ref_proto ref_sig
                         obs_index seq_matches inputs of
                    Inl e \<Rightarrow> Inl e
                  | Inr (obs_index', seq_matches', inputs') \<Rightarrow>
                      seq_loop opts ref_signatures obs_signatures obs_proto_list exact_matches
                        rest obs_index' seq_matches' inputs'))))"

text \<open>
  \<^verbatim>\<open>start_sequential_matching\<close>: \<^verbatim>\<open>seq_matches = {}\<close>, \<^verbatim>\<open>obs_index = 0\<close>, the loop, and
  the dictionary written to \<^verbatim>\<open>seq_matches.json\<close>, which is the result here.
\<close>

definition start_sequential_matching ::
  "options \<Rightarrow> (string \<times> signature) list \<Rightarrow> string list \<Rightarrow> (string \<times> signature) list
     \<Rightarrow> string list \<Rightarrow> (string \<times> string) list \<Rightarrow> string list
     \<Rightarrow> error + (string \<times> string) list" where
  "start_sequential_matching opts ref_signatures ref_proto_list obs_signatures obs_proto_list
     exact_matches inputs =
     (case seq_loop opts ref_signatures obs_signatures obs_proto_list exact_matches
             ref_proto_list 0 [] inputs of
        Inl e \<Rightarrow> Inl e
      | Inr (obs_index, seq_matches, inputs') \<Rightarrow> Inr seq_matches)"

subsection \<open>The scorer and the match selector as the specification states them\<close>

text \<open>
  Definitions that follow the words of the specification, for comparison with the functions
  above. The shallow elements of a message signature are its field infos, those of an enum
  signature its numbers; a field info and a number are never equal, so the two kinds are
  kept apart by \<open>Inl\<close> and \<open>Inr\<close>. The score of the specification (section 4.2) is
  \<open>(|A \<inter> B| / |A|) * (min(|A|, |B|) / max(|A|, |B|))\<close> with the multiset intersection of
  the shallow elements, each quotient and the product a float.
\<close>

definition shallow_elements :: "signature \<Rightarrow> (field_info + int) multiset" where
  "shallow_elements sig =
     (case sig of
        FieldSet m \<Rightarrow> image_mset Inl m
      | EnumValues s \<Rightarrow> image_mset Inr (mset_set (fset s))
      | MapEntry k v \<Rightarrow> {#}
      | Absent \<Rightarrow> {#})"

definition spec_score :: "signature \<Rightarrow> signature \<Rightarrow> rat" where
  "spec_score A B =
     float_round
       (float_round (rat_of_nat (size (shallow_elements A \<inter># shallow_elements B))
                       / rat_of_nat (size (shallow_elements A)))
        * float_round (rat_of_nat (min (size (shallow_elements A)) (size (shallow_elements B)))
                       / rat_of_nat (max (size (shallow_elements A)) (size (shallow_elements B)))))"

text \<open>
  The match selector (section 4.4). The survivors are the candidates whose name has no
  nested-type separator and whose score is not below the threshold, in the order of the
  candidate registry; the combined score is \<open>score + 0.5 * (1 - (index + 1) / |candidate_order|)\<close>
  with \<open>index\<close> the position of the name in \<open>candidate_order\<close>, every operation a float
  operation.
\<close>

definition spec_survivors ::
  "rat \<Rightarrow> signature \<Rightarrow> (string \<times> signature) list \<Rightarrow> (string \<times> rat) list" where
  "spec_survivors threshold target candidates =
     [(name, score). (name, sig) \<leftarrow> candidates, CHR ''.'' \<notin> set name,
        score \<leftarrow> (case compare_sigs target sig of Inl e \<Rightarrow> [] | Inr score \<Rightarrow> [score]),
        \<not> score < threshold]"

definition spec_combined :: "string list \<Rightarrow> string \<times> rat \<Rightarrow> rat" where
  "spec_combined candidate_order entry =
     float_round (snd entry + float_round (float_round (1 - float_round
       (rat_of_nat (length (takeWhile (\<lambda>name. name \<noteq> fst entry) candidate_order) + 1)
          / rat_of_nat (length candidate_order))) * (1 / 2)))"

subsection \<open>Values used in the examples\<close>

text \<open>The options as \<^verbatim>\<open>config["ProtoMatcher"]\<close> sets them by default.\<close>

abbreviation default_options :: options where
  "default_options \<equiv>
     \<lparr>PACKAGE_NAME = [], DEFAULT_EMPTY_TO_BYTES = True, THRESHOLD = 1 / 2,
      MAX_DISPLAY_MATCHES = 5\<rparr>"

abbreviation scalar_field :: "ftype \<Rightarrow> field_descriptor" where
  "scalar_field t \<equiv>
     \<lparr>f_label = LABEL_OPTIONAL, f_type = t, f_type_name = None, f_oneof_index = None\<rparr>"

abbreviation message_field :: "string \<Rightarrow> field_descriptor" where
  "message_field type_name \<equiv>
     \<lparr>f_label = LABEL_OPTIONAL, f_type = TYPE_MESSAGE, f_type_name = Some type_name,
      f_oneof_index = None\<rparr>"

abbreviation one_file :: "descriptor_proto list \<Rightarrow> enum_descriptor list \<Rightarrow> file_descriptor list" where
  "one_file messages enums \<equiv> [\<lparr>file_message_type = messages, file_enum_type = enums\<rparr>]"

abbreviation empty_registry :: registry where
  "empty_registry \<equiv> \<lparr>proto2sig_map = [], computed = []\<rparr>"

abbreviation sig_int32 :: signature where
  "sig_int32 \<equiv> FieldSet {#Scalar ''int32''#}"

abbreviation sig_int32_string :: signature where
  "sig_int32_string \<equiv> FieldSet {#Scalar ''int32'', Scalar ''string''#}"

text \<open>A message with one field of its own type: \<^verbatim>\<open>message Node { Node next = 1; }\<close>.\<close>

abbreviation node_message :: descriptor_proto where
  "node_message \<equiv> DescriptorProto ''Node'' [message_field ''.Node''] [] [] [] False"

text \<open>\<^verbatim>\<open>message Empty {}\<close>, and the helper message of a \<^verbatim>\<open>map<string, int32>\<close> field.\<close>

abbreviation empty_message :: descriptor_proto where
  "empty_message \<equiv> DescriptorProto ''Empty'' [] [] [] [] False"




text \<open>Five candidates of a search, one of them a nested type.\<close>

abbreviation search_candidates :: "(string \<times> signature) list" where
  "search_candidates \<equiv>
     [(''X'', sig_int32), (''Y'', sig_int32_string), (''Y.N'', sig_int32_string),
      (''Z'', FieldSet {#Scalar ''int32'', Scalar ''string'', Scalar ''bool''#}),
      (''W'', sig_int32_string)]"

section \<open>Properties\<close>

subsection \<open>The scorer\<close>

lemma pow2_pos: "0 < pow2 k"
  by (simp add: pow2_def)

lemma round_half_even_nonneg: "0 \<le> y \<Longrightarrow> 0 \<le> round_half_even y"
  by (auto simp add: round_half_even_def Let_def)

lemma round_half_even_le:
  assumes "y \<le> of_int N"
  shows "round_half_even y \<le> N"
proof (cases "y = of_int N")
  case True
  then show ?thesis by (simp add: round_half_even_def)
next
  case False
  with assms have "y < of_int N" by simp
  then have "\<lfloor>y\<rfloor> < N" by (simp add: floor_less_iff)
  then show ?thesis by (auto simp add: round_half_even_def Let_def)
qed

lemma float_round_nonneg: "0 \<le> x \<Longrightarrow> 0 \<le> float_round x"
  by (auto simp add: float_round_def Let_def intro!: mult_nonneg_nonneg round_half_even_nonneg
      divide_nonneg_pos pow2_pos less_imp_le[OF pow2_pos])

lemma bitlen_mono: "a \<le> b \<Longrightarrow> bitlen a \<le> bitlen b"
  by (simp add: bitlen_def floorlog_mono nat_mono)

lemma exponent_of_le_0:
  assumes "0 < x" and "x \<le> 1"
  shows "exponent_of x \<le> 0"
proof -
  obtain p q where pq: "quotient_of x = (p, q)" by (cases "quotient_of x")
  then have q: "0 < q" and x: "x = of_int p / of_int q"
    by (simp_all add: quotient_of_denom_pos quotient_of_div)
  from assms(2) x q have "p \<le> q" by (simp add: pos_divide_le_eq)
  then have "bitlen p - bitlen q \<le> 0" using bitlen_mono by simp
  with pq show ?thesis by (simp add: exponent_of_def Let_def)
qed

lemma float_round_le_1:
  assumes "0 \<le> x" and "x \<le> 1"
  shows "float_round x \<le> 1"
proof (cases "x = 0")
  case True
  then show ?thesis by (simp add: float_round_def)
next
  case False
  with assms(1) have pos: "0 < x" by simp
  define t where "t = max (exponent_of \<bar>x\<bar>) (- 1022) - 52"
  have "exponent_of \<bar>x\<bar> \<le> 0" using exponent_of_le_0[of x] pos assms(2) by simp
  then have t: "t < 0" by (simp add: t_def)
  define k where "k = nat (- t)"
  have p: "pow2 t = 1 / 2 ^ k" using t by (simp add: pow2_def k_def)
  have "x / pow2 t = x * 2 ^ k" by (simp add: p)
  also have "\<dots> \<le> 1 * 2 ^ k" using assms(2) by (intro mult_right_mono) simp_all
  finally have "x / pow2 t \<le> of_int (2 ^ k)" by simp
  then have "round_half_even (x / pow2 t) \<le> 2 ^ k" by (rule round_half_even_le)
  then have "rat_of_int (round_half_even (x / pow2 t)) \<le> 2 ^ k"
    by (metis of_int_le_iff of_int_numeral of_int_power)
  then have "rat_of_int (round_half_even (x / pow2 t)) * pow2 t \<le> 1"
    by (simp add: p pos_divide_le_eq)
  with False show ?thesis by (simp add: float_round_def Let_def t_def)
qed

lemma float_round_1: "float_round 1 = 1"
  by code_simp

lemma count_image_inj: "inj f \<Longrightarrow> count (image_mset f A) (f x) = count A x"
  by (induction A) (auto dest: injD)

lemma image_mset_inter_inj:
  assumes "inj f"
  shows "image_mset f (A \<inter># B) = image_mset f A \<inter># image_mset f B"
proof (rule multiset_eqI)
  fix y
  show "count (image_mset f (A \<inter># B)) y = count (image_mset f A \<inter># image_mset f B) y"
  proof (cases "y \<in> range f")
    case True
    then obtain x where "y = f x" by auto
    then show ?thesis by (simp add: count_image_inj[OF assms])
  next
    case False
    then have "y \<notin># image_mset f M" for M by auto
    then have "count (image_mset f M) y = 0" for M by (simp add: count_eq_zero_iff)
    then show ?thesis by simp
  qed
qed

lemma mset_set_finter: "mset_set (fset (s |\<inter>| t)) = mset_set (fset s) \<inter># mset_set (fset t)"
  by (rule multiset_eqI) (simp add: count_mset_set')

lemma sig_len_elements:
  assumes "is_FieldSet A \<or> is_EnumValues A"
  shows "sig_len A = Inr (size (shallow_elements A))"
  using assms by (cases A) (simp_all add: shallow_elements_def fcard.rep_eq)

lemma sig_inter_len_elements:
  assumes "is_FieldSet A \<or> is_EnumValues A" and "is_FieldSet B \<or> is_EnumValues B"
  shows "sig_inter_len A B = Inr (size (shallow_elements A \<inter># shallow_elements B))"
proof (cases A)
  case (FieldSet a)
  show ?thesis
  proof (cases B)
    case (FieldSet b)
    have "size (a \<inter># b) = size (image_mset Inl a \<inter># image_mset Inl b :: (field_info + int) multiset)"
      by (simp flip: image_mset_inter_inj)
    with \<open>A = FieldSet a\<close> FieldSet show ?thesis by (simp add: shallow_elements_def)
  next
    case (EnumValues t)
    have "image_mset Inl a \<inter># image_mset Inr (mset_set (fset t)) = ({#} :: (field_info + int) multiset)"
      by (auto simp add: disjunct_not_in)
    with \<open>A = FieldSet a\<close> EnumValues show ?thesis by (simp add: shallow_elements_def)
  qed (use assms in auto)
next
  case (EnumValues s)
  show ?thesis
  proof (cases B)
    case (FieldSet b)
    have "image_mset Inr (mset_set (fset s)) \<inter># image_mset Inl b = ({#} :: (field_info + int) multiset)"
      by (auto simp add: disjunct_not_in)
    with \<open>A = EnumValues s\<close> FieldSet show ?thesis by (simp add: shallow_elements_def)
  next
    case (EnumValues t)
    have "fcard (s |\<inter>| t)
        = size (image_mset Inr (mset_set (fset s)) \<inter># image_mset Inr (mset_set (fset t))
             :: (field_info + int) multiset)"
      by (simp flip: image_mset_inter_inj mset_set_finter add: fcard.rep_eq)
    with \<open>A = EnumValues s\<close> EnumValues show ?thesis by (simp add: shallow_elements_def)
  qed (use assms in auto)
qed (use assms in auto)

lemma spec_score_range:
  assumes "shallow_elements A \<noteq> {#}" and "shallow_elements B \<noteq> {#}"
  shows "0 \<le> spec_score A B" and "spec_score A B \<le> 1"
proof -
  let ?i = "size (shallow_elements A \<inter># shallow_elements B)"
  let ?a = "size (shallow_elements A)"
  let ?b = "size (shallow_elements B)"
  have a: "0 < ?a" and b: "0 < ?b" using assms by (simp_all add: nonempty_has_size)
  have ia: "?i \<le> ?a" by (simp add: size_mset_mono)
  have q1: "0 \<le> rat_of_nat ?i / rat_of_nat ?a" "rat_of_nat ?i / rat_of_nat ?a \<le> 1"
    using a ia by simp_all
  have "min ?a ?b \<le> max ?a ?b" by simp
  then have q2: "0 \<le> rat_of_nat (min ?a ?b) / rat_of_nat (max ?a ?b)"
      "rat_of_nat (min ?a ?b) / rat_of_nat (max ?a ?b) \<le> 1"
    using a b by (simp_all del: of_nat_min of_nat_max)
  let ?x = "float_round (rat_of_nat ?i / rat_of_nat ?a)"
  let ?y = "float_round (rat_of_nat (min ?a ?b) / rat_of_nat (max ?a ?b))"
  have x: "0 \<le> ?x" "?x \<le> 1"
    using q1 by (auto intro: float_round_nonneg float_round_le_1)
  have y: "0 \<le> ?y" "?y \<le> 1"
    using q2 by (auto intro: float_round_nonneg float_round_le_1)
  have p: "0 \<le> ?x * ?y" "?x * ?y \<le> 1"
    using x y by (auto intro: mult_nonneg_nonneg mult_le_one)
  show "0 \<le> spec_score A B" unfolding spec_score_def using p(1) by (rule float_round_nonneg)
  show "spec_score A B \<le> 1" unfolding spec_score_def using p by (rule float_round_le_1)
qed

text \<open>
  C5 as stated fails for a map-entry signature: it is not empty (its length is 2), and the
  scorer raises \<^verbatim>\<open>TypeError\<close> on it, since a tuple has no \<^verbatim>\<open>&\<close>.
\<close>

theorem map_entry_signature_not_scored:
  "sig_len (MapEntry (Scalar ''string'') (Scalar ''int32'')) = Inr 2 \<and>
   compare_sigs (MapEntry (Scalar ''string'') (Scalar ''int32''))
     (MapEntry (Scalar ''string'') (Scalar ''int32'')) = Inl TypeError"
  by code_simp

text \<open>
  C5, amended. For a non-empty signature \<open>A\<close> that is a field multiset or an enum value set,
  \<open>compare_sigs A A\<close> is 1; for two such signatures \<open>compare_sigs A B\<close> is the score of the
  specification, \<open>(|A \<inter> B| / |A|) * (min(|A|, |B|) / max(|A|, |B|))\<close> with the multiset
  intersection of the shallow elements and the shallow cardinalities, computed in floats,
  and it lies in \<open>[0, 1]\<close>.
\<close>

theorem compare_sigs_score:
  assumes "is_FieldSet A \<or> is_EnumValues A" and "is_FieldSet B \<or> is_EnumValues B"
    and "shallow_elements A \<noteq> {#}" and "shallow_elements B \<noteq> {#}"
  shows "compare_sigs A A = Inr 1 \<and> compare_sigs A B = Inr (spec_score A B) \<and>
    0 \<le> spec_score A B \<and> spec_score A B \<le> 1"
proof -
  have a: "0 < size (shallow_elements A)" and b: "0 < size (shallow_elements B)"
    using assms(3,4) by (simp_all add: nonempty_has_size)
  have ab: "compare_sigs A B = Inr (spec_score A B)"
    using a b assms(3,4)
    by (simp add: compare_sigs_def spec_score_def Let_def sig_len_elements[OF assms(1)]
        sig_len_elements[OF assms(2)] sig_inter_len_elements[OF assms(1,2)])
  have "compare_sigs A A = Inr (float_round (float_round 1 * float_round 1))"
    using a assms(3)
    by (simp add: compare_sigs_def Let_def sig_len_elements[OF assms(1)]
        sig_inter_len_elements[OF assms(1,1)])
  then have aa: "compare_sigs A A = Inr 1" by (simp add: float_round_1)
  from aa ab spec_score_range[OF assms(3,4)] show ?thesis by simp
qed

theorem compare_sigs_score_witness:
  "compare_sigs sig_int32_string sig_int32_string = Inr 1 \<and>
   compare_sigs sig_int32_string
       (FieldSet {#Scalar ''string'', Scalar ''bool'', Scalar ''bytes''#})
     = Inr (spec_score sig_int32_string
         (FieldSet {#Scalar ''string'', Scalar ''bool'', Scalar ''bytes''#})) \<and>
   0 \<le> spec_score sig_int32_string
         (FieldSet {#Scalar ''string'', Scalar ''bool'', Scalar ''bytes''#}) \<and>
   spec_score sig_int32_string
         (FieldSet {#Scalar ''string'', Scalar ''bool'', Scalar ''bytes''#}) \<le> 1"
  by (rule compare_sigs_score) (simp_all add: shallow_elements_def)

text \<open>
  C2. Neither caller of the scorer sets a signature of shallow cardinality zero aside. With
  the signature of a message without fields as the target, \<open>get_matches\<close> calls
  \<open>compare_sigs\<close> on it and the division by \<open>sig1_len = 0\<close> raises
  \<^verbatim>\<open>ZeroDivisionError\<close>; so does the session when such a reference entry meets an
  obfuscated entry.
\<close>

theorem zero_cardinality_target_raises:
  "get_matches default_options (FieldSet {#}) [(''X'', FieldSet {#Scalar ''int32''#})] [''X'']
     = Inl ZeroDivisionError \<and>
   start_sequential_matching default_options [(''Empty'', FieldSet {#})] [''Empty'']
     [(''X'', FieldSet {#Scalar ''int32''#}), (''Y'', FieldSet {#Scalar ''bool''#})]
     [''X'', ''Y''] [] [] = Inl ZeroDivisionError"
  by code_simp

subsection \<open>The sequential matching session\<close>

text \<open>
  C1 as stated fails: after a pairing is accepted the obfuscated cursor is where it was.
  With reference entries \<open>A\<close> and \<open>B\<close> and obfuscated entries \<open>X\<close>, \<open>Y\<close>, \<open>Z\<close> of one and
  the same signature, the inner loop for \<open>A\<close> returns the cursor 0 it was given, and the session
  pairs both \<open>A\<close> and \<open>B\<close> with \<open>X\<close>.
\<close>

theorem accept_keeps_obfuscated_cursor:
  "match_loop default_options [(''X'', sig_int32), (''Y'', sig_int32), (''Z'', sig_int32)]
       [''X'', ''Y'', ''Z''] ''A'' sig_int32 0 [] [] = Inr (0, [(''A'', ''X'')], []) \<and>
   start_sequential_matching default_options [(''A'', sig_int32), (''B'', sig_int32)]
       [''A'', ''B''] [(''X'', sig_int32), (''Y'', sig_int32), (''Z'', sig_int32)]
       [''X'', ''Y'', ''Z''] [] []
     = Inr [(''A'', ''X''), (''B'', ''X'')]"
  by code_simp

text \<open>
  C1, amended. When the reference entry \<open>ref_proto\<close> (which has a signature and no exact
  unique match) meets the obfuscated entry at \<open>obs_index\<close> and either the score is 1 or the
  operator's answer is neither \<^verbatim>\<open>1\<close> nor \<^verbatim>\<open>2\<close> (accept), then the inner loop records the
  pairing in the result dictionary and returns the obfuscated cursor unchanged, and the
  outer loop goes on with the next reference entry \<open>rest\<close> at that same obfuscated cursor.
\<close>

theorem accepted_pairing_recorded:
  assumes "obs_index + 1 < length obs_proto_list"
    and "map_of ref_signatures ref_proto = Some ref_sig"
    and "map_of exact_matches ref_proto = None"
    and "map_of obs_signatures (obs_proto_list ! obs_index) = Some obs_sig"
    and "compare_sigs ref_sig obs_sig = Inr score"
    and "score = 1 \<and> inputs' = inputs \<or>
         score \<noteq> 1 \<and> get_matches opts ref_sig obs_signatures obs_proto_list = Inr matches_view \<and>
           inputs = keep # inputs' \<and> keep \<noteq> ''1'' \<and> keep \<noteq> ''2''"
  shows "match_loop opts obs_signatures obs_proto_list ref_proto ref_sig obs_index seq_matches
           inputs
         = Inr (obs_index, AList.update ref_proto (obs_proto_list ! obs_index) seq_matches,
             inputs') \<and>
       map_of (AList.update ref_proto (obs_proto_list ! obs_index) seq_matches) ref_proto
         = Some (obs_proto_list ! obs_index) \<and>
       seq_loop opts ref_signatures obs_signatures obs_proto_list exact_matches
           (ref_proto # rest) obs_index seq_matches inputs
         = seq_loop opts ref_signatures obs_signatures obs_proto_list exact_matches rest
             obs_index (AList.update ref_proto (obs_proto_list ! obs_index) seq_matches) inputs'"
proof -
  have m: "match_loop opts obs_signatures obs_proto_list ref_proto ref_sig obs_index seq_matches
           inputs
         = Inr (obs_index, AList.update ref_proto (obs_proto_list ! obs_index) seq_matches,
             inputs')"
    using assms(1,4,5,6) by (subst match_loop.simps) auto
  have r: "map_of (AList.update ref_proto (obs_proto_list ! obs_index) seq_matches) ref_proto
         = Some (obs_proto_list ! obs_index)"
    by (simp add: update_conv')
  have s: "seq_loop opts ref_signatures obs_signatures obs_proto_list exact_matches
           (ref_proto # rest) obs_index seq_matches inputs
         = seq_loop opts ref_signatures obs_signatures obs_proto_list exact_matches rest
             obs_index (AList.update ref_proto (obs_proto_list ! obs_index) seq_matches) inputs'"
    using assms(1,2,3) by (simp add: m)
  from m r s show ?thesis by blast
qed

theorem accepted_pairing_recorded_witness:
  "match_loop default_options
       [(''X'', sig_int32), (''Y'', sig_int32_string), (''Z'', sig_int32)] [''X'', ''Y'', ''Z'']
       ''B'' sig_int32_string 0 [(''A'', ''X'')] [[], ''2'']
     = Inr (0, AList.update ''B'' ([''X'', ''Y'', ''Z''] ! 0) [(''A'', ''X'')], [''2'']) \<and>
   map_of (AList.update ''B'' ([''X'', ''Y'', ''Z''] ! 0) [(''A'', ''X'')]) ''B''
     = Some ([''X'', ''Y'', ''Z''] ! 0) \<and>
   seq_loop default_options
       [(''A'', sig_int32), (''B'', sig_int32_string), (''C'', sig_int32)]
       [(''X'', sig_int32), (''Y'', sig_int32_string), (''Z'', sig_int32)] [''X'', ''Y'', ''Z'']
       [] (''B'' # [''C'']) 0 [(''A'', ''X'')] [[], ''2'']
     = seq_loop default_options
         [(''A'', sig_int32), (''B'', sig_int32_string), (''C'', sig_int32)]
         [(''X'', sig_int32), (''Y'', sig_int32_string), (''Z'', sig_int32)] [''X'', ''Y'', ''Z'']
         [] [''C''] 0 (AList.update ''B'' ([''X'', ''Y'', ''Z''] ! 0) [(''A'', ''X'')]) [''2'']"
proof (rule accepted_pairing_recorded[where ref_sig = sig_int32_string and obs_sig = sig_int32
      and score = "1/4" and keep = "[]" and matches_view = "[(''Y'', 1)]"])
  show "compare_sigs sig_int32_string sig_int32 = Inr (1/4)" by code_simp
  show "1 / 4 = (1::rat) \<and> [''2''] = [[], ''2''] \<or>
    1 / 4 \<noteq> (1::rat) \<and>
    get_matches default_options sig_int32_string
      [(''X'', sig_int32), (''Y'', sig_int32_string), (''Z'', sig_int32)] [''X'', ''Y'', ''Z'']
      = Inr [(''Y'', 1)] \<and>
    [[], ''2''] = [] # [''2''] \<and> [] \<noteq> ''1'' \<and> [] \<noteq> ''2''"
    by code_simp
qed simp_all

text \<open>
  C4. Both loops leave when \<open>obs_index + 1 \<ge> len(obs_proto_list)\<close>, that is already when
  the cursor points at the last obfuscated entry. With one reference entry \<open>A\<close> and one
  obfuscated entry \<open>X\<close> of the same signature the session ends with an empty result, \<open>X\<close>
  never compared; and after the answer \<^verbatim>\<open>2\<close> moves the cursor from \<open>W\<close> to the last
  entry \<open>X\<close>, the inner loop ends there without comparing \<open>A\<close> with \<open>X\<close>.
\<close>

theorem last_obfuscated_entry_never_compared:
  "start_sequential_matching default_options [(''A'', sig_int32)] [''A'']
     [(''X'', sig_int32)] [''X''] [] [] = Inr [] \<and>
   match_loop default_options [(''W'', FieldSet {#Scalar ''bool''#}), (''X'', sig_int32)]
     [''W'', ''X''] ''A'' sig_int32 0 [] [''2''] = Inr (1, [], [])"
  by code_simp

subsection \<open>The signature generator\<close>

lemma strip_Node: "strip_proto_name default_options ''.Node'' = ''Node''"
  by code_simp

lemma self_reference_exhausts_stack:
  assumes "map_of (proto2sig_map st) ''Node'' = None"
    and "proto = None \<or> proto = Some (Message node_message)"
  shows "get_signature depth default_options [(''Node'', Message node_message)] ''Node'' proto st
           = Inl RecursionError"
  using assms
proof (induction depth arbitrary: st proto)
  case 0
  show ?case by simp
next
  case (Suc depth)
  have "get_signature depth default_options [(''Node'', Message node_message)] ''Node'' None
          (st\<lparr>computed := computed st @ [''Node'']\<rparr>) = Inl RecursionError"
    by (rule Suc.IH) (use Suc.prems in simp_all)
  then show ?case
    using Suc.prems by (auto simp add: field_info_of_def strip_Node)
qed

text \<open>
  C9. \<^verbatim>\<open>get_signature\<close> keeps no mark of the names whose computation is in progress. For the
  message \<open>Node\<close>, whose one field is of type \<open>Node\<close>, every request re-enters the same
  computation one frame deeper; whatever the recursion limit, the registry build uses up
  all frames and ends with \<^verbatim>\<open>RecursionError\<close>. No cyclic-type error exists.
\<close>

theorem self_referential_type_recursion_error:
  "generate_signatures limit default_options (one_file [node_message] []) = Inl RecursionError"
  by (simp add: generate_signatures_def build_descriptor_map_def self_reference_exhausts_stack)

text \<open>
  C3. A result is stored only by the callers at the top level and for nested types; the
  request for the type of a field stores nothing. With \<open>A\<close> declared before the type \<open>B\<close> of
  its field, the body of \<^verbatim>\<open>get_signature\<close> runs three times for \<open>B\<close> in one registry
  build: twice for the field of \<open>A\<close> (lines 276 and 280) and once more at the top level.
\<close>

theorem cross_reference_recomputed:
  "map_sum id computed
     (generate_signatures 1000 default_options
        (one_file [DescriptorProto ''A'' [message_field ''.B''] [] [] [] False,
                   DescriptorProto ''B'' [scalar_field TYPE_INT32] [] [] [] False] []))
   = Inr [''A'', ''B'', ''B'', ''B'']"
  by code_simp

text \<open>
  C10. With \<^verbatim>\<open>DEFAULT_EMPTY_TO_BYTES\<close> on, a field that names a type whose signature resolves
  to \<^verbatim>\<open>None\<close>, to the empty multiset (a message without fields) or to the empty frozenset
  (an enum without values) gets the field info \<open>label @ ''bytes''\<close>, a plain string with no
  nested signature.
\<close>

theorem empty_type_collapses_to_bytes:
  assumes "DEFAULT_EMPTY_TO_BYTES opts"
    and "f_type_name field = Some type_name"
    and "get_signature depth opts descriptor_map (strip_proto_name opts type_name) None st
           = Inr (type_sig, st1)"
    and "type_sig = Absent \<or> type_sig = FieldSet {#} \<or> type_sig = EnumValues {||}"
  shows "field_info_of opts (get_signature depth opts descriptor_map) field st
           = Inr (Scalar (field_label (f_label field) @ ''bytes''), st1)"
proof -
  have "not_sig type_sig" using assms(4) by auto
  then show ?thesis using assms(1,2,3) by (simp add: field_info_of_def)
qed

theorem empty_type_collapses_to_bytes_witness:
  "field_info_of default_options
      (get_signature 3 default_options [(''Empty'', Message empty_message)])
      \<lparr>f_label = LABEL_REPEATED, f_type = TYPE_MESSAGE, f_type_name = Some ''.Empty'',
        f_oneof_index = None\<rparr> empty_registry
    = Inr (Scalar (field_label (f_label
         \<lparr>f_label = LABEL_REPEATED, f_type = TYPE_MESSAGE, f_type_name = Some ''.Empty'',
           f_oneof_index = None\<rparr>) @ ''bytes''),
        \<lparr>proto2sig_map = [], computed = [''Empty'']\<rparr>)"
proof (rule empty_type_collapses_to_bytes[where type_name = "''.Empty''"
      and type_sig = "FieldSet {#}"])
  show "get_signature 3 default_options [(''Empty'', Message empty_message)]
     (strip_proto_name default_options ''.Empty'') None empty_registry
    = Inr (FieldSet {#}, \<lparr>proto2sig_map = [], computed = [''Empty'']\<rparr>)"
    by code_simp
qed simp_all






























subsection \<open>The match selector\<close>

lemma update_fresh: "k \<notin> fst ` set al \<Longrightarrow> AList.update k v al = al @ [(k, v)]"
  by (induction al) auto

lemma score_loop_survivors:
  assumes "score_loop threshold target candidates acc = Inr score_map"
    and "distinct (map fst candidates)"
    and "fst ` set acc \<inter> fst ` set candidates = {}"
  shows "score_map = acc @ spec_survivors threshold target candidates"
  using assms
proof (induction candidates arbitrary: acc)
  case Nil
  then show ?case by (simp add: spec_survivors_def)
next
  case (Cons c rest)
  obtain name sig where c: "c = (name, sig)" by (cases c)
  have fresh: "name \<notin> fst ` set acc" using Cons.prems(3) c by auto
  have d: "distinct (map fst rest)" and nr: "name \<notin> fst ` set rest"
    using Cons.prems(2) c by auto
  have disj: "fst ` set acc \<inter> fst ` set rest = {}" using Cons.prems(3) by auto
  show ?case
  proof (cases "CHR ''.'' \<in> set name")
    case True
    with Cons.prems(1) c have "score_loop threshold target rest acc = Inr score_map" by simp
    from Cons.IH[OF this d disj] True c show ?thesis by (simp add: spec_survivors_def)
  next
    case False
    show ?thesis
    proof (cases "compare_sigs target sig")
      case (Inl e)
      with Cons.prems(1) c False show ?thesis by simp
    next
      case (Inr score)
      show ?thesis
      proof (cases "score < threshold")
        case True
        with Cons.prems(1) c False Inr
        have "score_loop threshold target rest acc = Inr score_map" by simp
        from Cons.IH[OF this d disj] True False Inr c show ?thesis
          by (simp add: spec_survivors_def)
      next
        case nlt: False
        with Cons.prems(1) c False Inr
        have "score_loop threshold target rest (acc @ [(name, score)]) = Inr score_map"
          by (simp add: update_fresh[OF fresh])
        moreover have "fst ` set (acc @ [(name, score)]) \<inter> fst ` set rest = {}"
          using disj nr by auto
        ultimately have "score_map = (acc @ [(name, score)]) @ spec_survivors threshold target rest"
          using Cons.IH d by blast
        with nlt False Inr c show ?thesis by (simp add: spec_survivors_def)
      qed
    qed
  qed
qed

lemma score_loop_scores_all:
  assumes "score_loop threshold target candidates acc = Inr score_map"
    and "(name, sig) \<in> set candidates" and "CHR ''.'' \<notin> set name"
  shows "\<exists>score. compare_sigs target sig = Inr score"
  using assms
proof (induction candidates arbitrary: acc)
  case Nil
  then show ?case by simp
next
  case (Cons c rest)
  obtain n s where c: "c = (n, s)" by (cases c)
  show ?case
  proof (cases "(name, sig) = c")
    case True
    with Cons.prems c show ?thesis by (cases "compare_sigs target sig") auto
  next
    case False
    with Cons.prems(2) have mem: "(name, sig) \<in> set rest" by auto
    from Cons.prems(1) c obtain acc' where "score_loop threshold target rest acc' = Inr score_map"
      by (auto split: if_splits sum.splits)
    from Cons.IH[OF this mem Cons.prems(3)] show ?thesis .
  qed
qed

lemma index_takeWhile:
  "index xs x = Inr i \<Longrightarrow> i = length (takeWhile (\<lambda>y. y \<noteq> x) xs)"
  by (induction xs arbitrary: i) (auto split: if_splits sum.splits)

lemma sort_key_fn_combined:
  "sort_key_fn proto_list tup = Inr k \<Longrightarrow> k = spec_combined proto_list tup"
  by (auto simp add: sort_key_fn_def spec_combined_def Let_def split: sum.splits
      dest!: index_takeWhile)

lemma with_keys_combined:
  "with_keys (sort_key_fn proto_list) xs = Inr ks \<Longrightarrow>
     ks = map (\<lambda>t. (spec_combined proto_list t, t)) xs"
  by (induction xs arbitrary: ks) (auto split: sum.splits dest: sort_key_fn_combined)

lemma insort_key_map:
  "insort_key f (g x) (map g xs) = map g (insort_key (\<lambda>y. f (g y)) x xs)"
  by (induction xs) auto

lemma sort_key_map: "sort_key f (map g xs) = map g (sort_key (\<lambda>y. f (g y)) xs)"
  by (induction xs) (auto simp add: insort_key_map)

lemma sorted_reverse_combined:
  assumes "sorted_reverse (sort_key_fn proto_list) xs = Inr ranked"
  shows "ranked = sort_key (\<lambda>t. - spec_combined proto_list t) xs"
proof -
  from assms obtain ks where ks: "with_keys (sort_key_fn proto_list) xs = Inr ks"
    and r: "ranked = map snd (sort_key (\<lambda>p. - fst p) ks)"
    by (auto simp add: sorted_reverse_def split: sum.splits)
  from with_keys_combined[OF ks] r show ?thesis
    by (simp add: sort_key_map comp_def)
qed

text \<open>
  C7 as stated fails in two places. The display limit: \<^verbatim>\<open>matches_sorted[:-1]\<close> drops the
  last entry only, so with three survivors and the limit \<open>- 1\<close> two entries are returned.
  The ties: the sort is stable over \<^verbatim>\<open>score_map.items()\<close>, which is in the order of the
  candidate registry; \<open>Q\<close> (score 0.75, third in \<open>proto_list\<close>) and \<open>P\<close> (score 0.5, first in
  \<open>proto_list\<close>) have the same combined score 0.875, and \<open>Q\<close>, first in the registry, is
  ranked before \<open>P\<close>.
\<close>

theorem limit_and_tie_order_differ:
  "get_matches (default_options\<lparr>MAX_DISPLAY_MATCHES := - 1\<rparr>) sig_int32_string search_candidates
      [''W'', ''X'', ''Y'', ''Z'']
     = Inr [(''W'', 1), (''Y'', 1)] \<and>
   sort_key_fn [''P'', ''R'', ''Q'', ''S''] (''Q'', 3 / 4) = Inr (7 / 8) \<and>
   sort_key_fn [''P'', ''R'', ''Q'', ''S''] (''P'', 1 / 2) = Inr (7 / 8) \<and>
   get_matches default_options
      (FieldSet {#Scalar ''int32'', Scalar ''string'', Scalar ''bool'', Scalar ''bytes''#})
      [(''Q'', FieldSet {#Scalar ''int32'', Scalar ''string'', Scalar ''bool'', Scalar ''float''#}),
       (''P'', FieldSet {#Scalar ''int32'', Scalar ''string'', Scalar ''float'', Scalar ''double''#})]
      [''P'', ''R'', ''Q'', ''S'']
     = Inr [(''Q'', 3 / 4), (''P'', 1 / 2)]"
  by code_simp

text \<open>
  C7, amended. When \<open>get_matches\<close> returns (no scoring or lookup raised) for a candidate
  registry with distinct names: every candidate whose name has no \<open>.\<close> was scored; there is
  a list \<open>ranked\<close> that holds exactly the survivors (float score not below \<open>THRESHOLD\<close>), is
  descending in the combined score computed in floats, and keeps entries of equal combined
  score in the order of the candidate registry (the sort is stable); the entries returned
  are the first \<open>MAX_DISPLAY_MATCHES\<close> of \<open>ranked\<close>, at most that many, when the limit is not
  negative, and \<open>ranked\<close> without its last \<open>- MAX_DISPLAY_MATCHES\<close> entries otherwise.
\<close>

theorem get_matches_ranking:
  assumes "get_matches opts match_sig candidates proto_list = Inr matches_view"
    and "distinct (map fst candidates)"
  shows "(\<forall>(name, sig) \<in> set candidates.
            CHR ''.'' \<notin> set name \<longrightarrow> (\<exists>score. compare_sigs match_sig sig = Inr score)) \<and>
    (\<exists>ranked.
       mset ranked = mset (spec_survivors (THRESHOLD opts) match_sig candidates) \<and>
       sorted_wrt (\<lambda>a b. spec_combined proto_list a \<ge> spec_combined proto_list b) ranked \<and>
       (\<forall>k. filter (\<lambda>t. spec_combined proto_list t = k) ranked
            = filter (\<lambda>t. spec_combined proto_list t = k)
                (spec_survivors (THRESHOLD opts) match_sig candidates)) \<and>
       matches_view
         = (if 0 \<le> MAX_DISPLAY_MATCHES opts then take (nat (MAX_DISPLAY_MATCHES opts)) ranked
            else take (nat (int (length ranked) + MAX_DISPLAY_MATCHES opts)) ranked) \<and>
       (0 \<le> MAX_DISPLAY_MATCHES opts \<longrightarrow> length matches_view \<le> nat (MAX_DISPLAY_MATCHES opts)))"
proof
  from assms(1) obtain score_map
    where sl: "score_loop (THRESHOLD opts) match_sig candidates [] = Inr score_map"
    by (auto simp add: get_matches_def split: sum.splits)
  show "\<forall>(name, sig) \<in> set candidates.
            CHR ''.'' \<notin> set name \<longrightarrow> (\<exists>score. compare_sigs match_sig sig = Inr score)"
    using score_loop_scores_all[OF sl] by blast
  let ?surv = "spec_survivors (THRESHOLD opts) match_sig candidates"
  let ?c = "spec_combined proto_list"
  let ?ranked = "sort_key (\<lambda>t. - ?c t) ?surv"
  let ?limit = "MAX_DISPLAY_MATCHES opts"
  have sm: "score_map = ?surv" using score_loop_survivors[OF sl assms(2)] by simp
  have view: "matches_view = slice_to ?ranked ?limit"
  proof (cases "score_map = []")
    case True
    with assms(1) sl sm show ?thesis by (simp add: get_matches_def slice_to_def)
  next
    case False
    with assms(1) sl obtain matches_sorted
      where ms: "sorted_reverse (sort_key_fn proto_list) score_map = Inr matches_sorted"
        and v: "matches_view = slice_to matches_sorted ?limit"
      by (auto simp add: get_matches_def split: sum.splits)
    from sorted_reverse_combined[OF ms] sm v show ?thesis by simp
  qed
  have m: "mset ?ranked = mset ?surv" by simp
  have "sorted (map (\<lambda>t. - ?c t) ?ranked)" by (rule sorted_sort_key)
  then have s: "sorted_wrt (\<lambda>a b. ?c a \<ge> ?c b) ?ranked" by (simp add: sorted_map)
  have st: "filter (\<lambda>t. ?c t = k) ?ranked = filter (\<lambda>t. ?c t = k) ?surv" for k
    using sort_key_stable[of "\<lambda>t. - ?c t" "- k" ?surv] by simp
  have v2: "matches_view = (if 0 \<le> ?limit then take (nat ?limit) ?ranked
            else take (nat (int (length ?ranked) + ?limit)) ?ranked)"
    using view by (simp add: slice_to_def)
  have l: "0 \<le> ?limit \<longrightarrow> length matches_view \<le> nat ?limit" using v2 by simp
  from m s st v2 l show "\<exists>ranked.
       mset ranked = mset ?surv \<and>
       sorted_wrt (\<lambda>a b. ?c a \<ge> ?c b) ranked \<and>
       (\<forall>k. filter (\<lambda>t. ?c t = k) ranked = filter (\<lambda>t. ?c t = k) ?surv) \<and>
       matches_view = (if 0 \<le> ?limit then take (nat ?limit) ranked
            else take (nat (int (length ranked) + ?limit)) ranked) \<and>
       (0 \<le> ?limit \<longrightarrow> length matches_view \<le> nat ?limit)"
    by blast
qed

theorem get_matches_ranking_witness:
  "(\<exists>score. compare_sigs sig_int32_string sig_int32 = Inr score) \<and>
   (\<exists>ranked.
       mset ranked = mset (spec_survivors (THRESHOLD (default_options\<lparr>MAX_DISPLAY_MATCHES := 2\<rparr>))
         sig_int32_string search_candidates) \<and>
       sorted_wrt (\<lambda>a b. spec_combined [''W'', ''X'', ''Y'', ''Z''] a
                        \<ge> spec_combined [''W'', ''X'', ''Y'', ''Z''] b) ranked \<and>
       [(''W'', 1), (''Y'', 1)] = take 2 ranked)"
proof -
  let ?opts = "default_options\<lparr>MAX_DISPLAY_MATCHES := 2\<rparr>"
  have g: "get_matches ?opts sig_int32_string search_candidates [''W'', ''X'', ''Y'', ''Z'']
      = Inr [(''W'', 1), (''Y'', 1)]"
    by code_simp
  have d: "distinct (map fst search_candidates)" by simp
  note t = get_matches_ranking[OF g d]
  from t have a: "\<exists>score. compare_sigs sig_int32_string sig_int32 = Inr score" by force
  from t obtain ranked where
    "mset ranked = mset (spec_survivors (THRESHOLD ?opts) sig_int32_string search_candidates)"
    "sorted_wrt (\<lambda>a b. spec_combined [''W'', ''X'', ''Y'', ''Z''] a
                        \<ge> spec_combined [''W'', ''X'', ''Y'', ''Z''] b) ranked"
    "[(''W'', 1), (''Y'', 1)]
       = (if 0 \<le> MAX_DISPLAY_MATCHES ?opts then take (nat (MAX_DISPLAY_MATCHES ?opts)) ranked
          else take (nat (int (length ranked) + MAX_DISPLAY_MATCHES ?opts)) ranked)"
    by blast
  with a show ?thesis by auto
qed

text \<open>Scores are floats: with 6 of 11 fields shared with a candidate of 12 fields the score
  is \<open>0.49999999999999994\<close>, below a threshold of one half that the exact product meets.\<close>

lemma score_rounds_below_half:
  "compare_sigs (FieldSet (mset (map (\<lambda>i. Scalar (replicate i CHR ''a'')) [0..<11])))
      (FieldSet (mset (map (\<lambda>i. Scalar (replicate i CHR ''a'')) [5..<17]))) = Inr ((2^53 - 1) / 2^54)"
  by code_simp

end
